theory Spec2Isabelle
  imports Main "HOL-Library.Sublist"
begin

section \<open>The tsickle loader (src/index.ts) as a function from its collaborators to a call trace\<close>

text \<open>
  The loader is a synchronous pipeline over external services: loader-utils and schema-utils
  (options), fs-extra and path (filesystem), typescript (configuration, program, diagnostics)
  and tsickle (the transform). The services are the fields of an environment record; the
  loader's effects on them and on the host are recorded, in call order, as a list of events,
  next to the outcome of the invocation.
\<close>

subsection \<open>Constants of index.ts\<close>

definition LOADER_NAME :: string where
  "LOADER_NAME = ''tsickle-loader''"

definition DEFAULT_EXTERN_DIR :: string where
  "DEFAULT_EXTERN_DIR = ''dist/externs''"

definition EXTERNS_FILE_NAME :: string where
  "EXTERNS_FILE_NAME = ''externs.js''"

definition DEFAULT_CONFIG_FILE :: string where
  "DEFAULT_CONFIG_FILE = ''tsconfig.json''"

subsection \<open>Data\<close>

text \<open>loader-utils.d.ts: an option value is \<open>null | false | true | string\<close>; an absent key
  is \<open>None\<close> of the map.\<close>

datatype OptionValue = OptNull | OptBool bool | OptString string

type_synonym OptionObject = "string \<rightharpoonup> OptionValue"

text \<open>The loader context: \<open>resourcePath\<close>, and the option object that \<open>getOptions\<close> reads
  from it. The callbacks \<open>emitError\<close> and \<open>emitWarning\<close> are events of the trace.\<close>

record LoaderCTX =
  resourcePath :: string
  loaderOptions :: OptionObject

text \<open>The loader's argument is \<open>string | Buffer\<close>.\<close>

datatype Source = SourceString string | SourceBuffer "nat list"

text \<open>typescript's \<open>DiagnosticCategory\<close> and the fields of a \<open>Diagnostic\<close> that a message is
  made of.\<close>

datatype DiagnosticCategory = Warning | Error | Suggestion | Message

record Diagnostic =
  category :: DiagnosticCategory
  code :: int
  messageText :: string

record FormatDiagnosticsHost =
  getNewLine :: string
  getCanonicalFileName :: "string \<Rightarrow> string"
  getCurrentDirectory :: string

text \<open>The policy object handed to tsickle. Its \<open>logWarning\<close> callback is the
  \<open>LogWarning\<close> case of \<open>EmitCallback\<close> below; \<open>options\<close> is the empty object and
  \<open>moduleResolutionHost\<close> the compiler host, both opaque to the loader.\<close>

record TsickleHost =
  shouldSkipTsickleProcessing :: "string \<Rightarrow> bool"
  shouldIgnoreWarningsForPath :: "string \<Rightarrow> bool"
  pathToModuleName :: "string \<Rightarrow> string"
  fileNameToModuleId :: "string \<Rightarrow> string"
  es5Mode :: bool
  googmodule :: bool
  transformDecorators :: bool
  transformTypesToClosure :: bool
  typeBlackListPaths :: "string set"
  untyped :: bool

text \<open>What \<open>Tsickle.emit\<close> does to the loader: a sequence of calls of the two callbacks it
  was given (\<open>writeFile\<close> and \<open>logWarning\<close>), then the returned \<open>externs\<close> object.\<close>

datatype EmitCallback = WriteFile string string | LogWarning Diagnostic

record EmitResult =
  callbacks :: "EmitCallback list"
  externs :: "string \<rightharpoonup> string"

text \<open>The exception that leaves the loader: \<open>validate\<close> of schema-utils throws on an option
  of the wrong type.\<close>

datatype error = ValidationError string

text \<open>typescript does not throw on a configuration file that is missing or malformed: it
  returns the error inside its result. \<open>ts.readConfigFile\<close> returns \<open>{config, error}\<close> (the field
  \<open>error\<close> is \<open>readError\<close> here), \<open>ts.parseJsonConfigFileContent\<close> returns a parsed command line
  with \<open>options\<close> and \<open>errors\<close>. The loader reads \<open>config\<close> and \<open>options\<close> only.\<close>

record 'j ConfigFileResult =
  config :: 'j
  readError :: "Diagnostic option"

record 'o ParsedCommandLine =
  options :: 'o
  errors :: "Diagnostic list"

text \<open>The external services. \<open>'j\<close> is the parsed JSON of the configuration file
  (\<open>compilerConfigFile.config\<close>), \<open>'o\<close> the compiler options, \<open>'p\<close> the program. \<open>readConfigFile\<close> includes the
  \<open>fs.readFileSync\<close> of its callback; \<open>parseJsonConfigFileContent\<close> takes the JSON, the base
  path and the configuration file name, its other two arguments being constants.
  \<open>createProgram\<close> stands for \<open>ts.createCompilerHost\<close> followed by \<open>ts.createProgram\<close>. The
  last four fields are the imports from \<open>./path-utils\<close> and \<open>./fix-output\<close>, whose modules are
  not among the sources.\<close>

record ('j, 'o, 'p) Env =
  path_resolve :: "string \<Rightarrow> string \<Rightarrow> string"
  path_dirname :: "string \<Rightarrow> string"
  EOL :: string
  readConfigFile :: "string \<Rightarrow> 'j ConfigFileResult"
  parseJsonConfigFileContent :: "'j \<Rightarrow> string \<Rightarrow> string \<Rightarrow> 'o ParsedCommandLine"
  createProgram :: "string list \<Rightarrow> 'o \<Rightarrow> 'p"
  getPreEmitDiagnostics :: "'p \<Rightarrow> Diagnostic list"
  formatDiagnosticsWithColorAndContext :: "Diagnostic list \<Rightarrow> FormatDiagnosticsHost \<Rightarrow> string"
  tsickle_emit :: "'p \<Rightarrow> TsickleHost \<Rightarrow> EmitResult"
  pathUtils_tsToJS :: "string \<Rightarrow> string"
  pathUtils_jsToTS :: "string \<Rightarrow> string"
  fixOutput_fixCode :: "string \<Rightarrow> string"
  fixOutput_fixExtern :: "string \<Rightarrow> string"

text \<open>The calls with an effect outside the loader, in the order the loader makes them.
  \<open>fs.ensureDirSync\<close> and \<open>fs.appendFileSync\<close> are taken to return; an event records that
  the call was made and with what.\<close>

datatype Event =
    EnsureDirSync string
  | ReadConfigFile string
  | CreateProgram "string list"
  | GetPreEmitDiagnostics
  | TsickleEmit
  | EmitError string
  | EmitWarning string
  | AppendFileSync string string

text \<open>An invocation throws, or returns a code text, or returns \<open>undefined\<close>.\<close>

datatype Outcome = Threw error | Returned "string option"

record 'o OptionsFromSchema =
  tsconfig :: string
  externDir :: string
  externFile :: string
  compilerConfig :: "'o ParsedCommandLine"

subsection \<open>The function \<^verbatim>\<open>setup\<close> of index.ts, here \<open>loaderSetup\<close>\<close>

text \<open>\<open>optionsSchema\<close>: an object whose properties \<open>tsconfig\<close> and \<open>externDir\<close>, when
  present, are strings; no property is required and other properties are allowed.\<close>

definition isStringOrAbsent :: "OptionValue option \<Rightarrow> bool" where
  "isStringOrAbsent v = (case v of None \<Rightarrow> True | Some (OptString s) \<Rightarrow> True | Some _ \<Rightarrow> False)"

definition validate :: "OptionObject \<Rightarrow> bool" where
  "validate opts = (isStringOrAbsent (opts ''tsconfig'') \<and> isStringOrAbsent (opts ''externDir''))"

text \<open>\<open>v ?? d\<close> on an option that passed validation: the string when there is one, the
  default when the key is absent.\<close>

definition orDefault :: "OptionValue option \<Rightarrow> string \<Rightarrow> string" where
  "orDefault v d = (case v of Some (OptString s) \<Rightarrow> s | _ \<Rightarrow> d)"

definition loaderSetup :: "('j, 'o, 'p) Env \<Rightarrow> LoaderCTX \<Rightarrow> Event list \<times> (error + 'o OptionsFromSchema)" where
  "loaderSetup env loaderCTX =
    (let opts = loaderOptions loaderCTX in
     if \<not> validate opts then ([], Inl (ValidationError LOADER_NAME))
     else
       let externDir' = orDefault (opts ''externDir'') DEFAULT_EXTERN_DIR;
           externFile' = path_resolve env externDir' EXTERNS_FILE_NAME;
           tsconfig' = orDefault (opts ''tsconfig'') DEFAULT_CONFIG_FILE;
           compilerConfigFile = readConfigFile env tsconfig';
           compilerConfig' =
             parseJsonConfigFileContent env (config compilerConfigFile) ''.'' tsconfig'
       in ([EnsureDirSync externDir', ReadConfigFile tsconfig'],
           Inr \<lparr>tsconfig = tsconfig', externDir = externDir',
                 externFile = externFile', compilerConfig = compilerConfig'\<rparr>))"

subsection \<open>handleDiagnostics\<close>

datatype ReportType = AsError | AsWarning

definition handleDiagnostics ::
  "('j, 'o, 'p) Env \<Rightarrow> Diagnostic list \<Rightarrow> FormatDiagnosticsHost \<Rightarrow> ReportType \<Rightarrow> Event list" where
  "handleDiagnostics env diagnostics diagnosticHost type =
    (let formatted = formatDiagnosticsWithColorAndContext env diagnostics diagnosticHost in
     if type = AsError then [EmitError formatted] else [EmitWarning formatted])"

subsection \<open>Strings and the map of emitted files\<close>

text \<open>\<open>resourcePath.replace(/\\/g, "/")\<close>: every backslash becomes a slash.\<close>

definition normalizePath :: "string \<Rightarrow> string" where
  "normalizePath p = map (\<lambda>c. if c = CHR 0x5C then CHR ''/'' else c) p"

text \<open>\<open>haystack.indexOf(needle)\<close>: the first position at which \<open>needle\<close> occurs in
  \<open>haystack\<close>, or \<open>-1\<close>. The empty needle occurs at position 0.\<close>

fun indexOfFrom :: "string \<Rightarrow> string \<Rightarrow> int \<Rightarrow> int" where
  "indexOfFrom [] needle i = (if needle = [] then i else -1)"
| "indexOfFrom (c # cs) needle i =
     (if prefix needle (c # cs) then i else indexOfFrom cs needle (i + 1))"

definition indexOf :: "string \<Rightarrow> string \<Rightarrow> int" where
  "indexOf haystack needle = indexOfFrom haystack needle 0"

text \<open>\<open>jsFiles\<close> is a JavaScript \<open>Map\<close>: iteration is in insertion order, and \<open>set\<close> on a
  key already present replaces the value where the key stands.\<close>

type_synonym JsFiles = "(string \<times> string) list"

fun map_set :: "string \<Rightarrow> string \<Rightarrow> JsFiles \<Rightarrow> JsFiles" where
  "map_set k v [] = [(k, v)]"
| "map_set k v ((k', v') # rest) =
     (if k' = k then (k, v) # rest else (k', v') # map_set k v rest)"

subsection \<open>tsickleLoader\<close>

definition diagnosticsHost :: "('j, 'o, 'p) Env \<Rightarrow> string \<Rightarrow> FormatDiagnosticsHost" where
  "diagnosticsHost env sourceFileName =
    \<lparr>getNewLine = EOL env,
     getCanonicalFileName = (\<lambda>fileName. fileName),
     getCurrentDirectory = path_dirname env sourceFileName\<rparr>"

definition tsickleHost :: "string \<Rightarrow> TsickleHost" where
  "tsickleHost sourceFileName =
    \<lparr>shouldSkipTsickleProcessing = (\<lambda>filename. sourceFileName \<noteq> filename),
     shouldIgnoreWarningsForPath = (\<lambda>_. False),
     pathToModuleName = (\<lambda>name. name),
     fileNameToModuleId = (\<lambda>name. name),
     es5Mode = True,
     googmodule = False,
     transformDecorators = True,
     transformTypesToClosure = True,
     typeBlackListPaths = {},
     untyped = False\<rparr>"

text \<open>The callbacks tsickle makes during \<open>emit\<close>: \<open>writeFile\<close> stores into \<open>jsFiles\<close>,
  \<open>logWarning\<close> reports the one diagnostic as a warning.\<close>

fun runCallbacks ::
  "('j, 'o, 'p) Env \<Rightarrow> FormatDiagnosticsHost \<Rightarrow> EmitCallback list \<Rightarrow> JsFiles \<Rightarrow> Event list \<times> JsFiles" where
  "runCallbacks env dh [] jsFiles = ([], jsFiles)"
| "runCallbacks env dh (WriteFile p contents # cs) jsFiles =
     runCallbacks env dh cs (map_set p contents jsFiles)"
| "runCallbacks env dh (LogWarning warning # cs) jsFiles =
     (let (evs, jsFiles') = runCallbacks env dh cs jsFiles
      in (handleDiagnostics env [warning] dh AsWarning @ evs, jsFiles'))"

text \<open>The \<open>for\<close> loop over \<open>jsFiles\<close>: entries whose path does not occur in
  \<open>sourceFileAsJs\<close> are passed over; the first other entry appends its extern, when there is
  one, and returns the fixed code. \<open>None\<close> is the loop running to its end.\<close>

fun selectLoop ::
  "('j, 'o, 'p) Env \<Rightarrow> string \<Rightarrow> (string \<rightharpoonup> string) \<Rightarrow> string \<Rightarrow> JsFiles \<Rightarrow> (Event list \<times> string) option" where
  "selectLoop env externFile' exts sourceFileAsJs [] = None"
| "selectLoop env externFile' exts sourceFileAsJs ((p, src) # rest) =
     (if indexOf sourceFileAsJs p = -1 then selectLoop env externFile' exts sourceFileAsJs rest
      else
        let tsPathName = pathUtils_jsToTS env p;
            evs = (case exts tsPathName of
                     Some extern \<Rightarrow> [AppendFileSync externFile' (fixOutput_fixExtern env extern)]
                   | None \<Rightarrow> [])
        in Some (evs, fixOutput_fixCode env src))"

definition tsickleLoader ::
  "('j, 'o, 'p) Env \<Rightarrow> LoaderCTX \<Rightarrow> Source \<Rightarrow> Event list \<times> Outcome" where
  "tsickleLoader env this source =
    (case loaderSetup env this of
       (tr0, Inl e) \<Rightarrow> (tr0, Threw e)
     | (tr0, Inr cfg) \<Rightarrow>
         let sourceFileName = normalizePath (resourcePath this);
             program = createProgram env [sourceFileName] (options (compilerConfig cfg));
             diagnostics = getPreEmitDiagnostics env program;
             dh = diagnosticsHost env sourceFileName;
             tr1 = tr0 @ [CreateProgram [sourceFileName], GetPreEmitDiagnostics]
         in if length diagnostics > 0
            then (tr1 @ handleDiagnostics env diagnostics dh AsError, Returned None)
            else
              let output = tsickle_emit env program (tsickleHost sourceFileName);
                  (wevs, jsFiles) = runCallbacks env dh (callbacks output) [];
                  tr2 = tr1 @ [TsickleEmit] @ wevs;
                  sourceFileAsJs = pathUtils_tsToJS env sourceFileName
              in (case selectLoop env (externFile cfg) (externs output) sourceFileAsJs jsFiles of
                    Some (aevs, fixed) \<Rightarrow> (tr2 @ aevs, Returned (Some fixed))
                  | None \<Rightarrow>
                      (tr2 @ [EmitError (''missing compiled result for source file: '' @ sourceFileName)],
                       Returned None)))"

subsection \<open>The values of one invocation, named as the data model names them\<close>

text \<open>Each is a subterm of \<open>tsickleLoader\<close>, given the configuration \<open>cfg\<close> that
  \<open>loaderSetup\<close> returned: the normalized path (SourceUnit), the Program, its DiagnosticSet,
  the TransformOutput with its two maps, and the path the loop looks for.\<close>

definition sourceUnit :: "LoaderCTX \<Rightarrow> string" where
  "sourceUnit this = normalizePath (resourcePath this)"

definition program :: "('j, 'o, 'p) Env \<Rightarrow> 'o OptionsFromSchema \<Rightarrow> LoaderCTX \<Rightarrow> 'p" where
  "program env cfg this = createProgram env [sourceUnit this] (options (compilerConfig cfg))"

definition diagnosticSet ::
  "('j, 'o, 'p) Env \<Rightarrow> 'o OptionsFromSchema \<Rightarrow> LoaderCTX \<Rightarrow> Diagnostic list" where
  "diagnosticSet env cfg this = getPreEmitDiagnostics env (program env cfg this)"

definition transformOutput ::
  "('j, 'o, 'p) Env \<Rightarrow> 'o OptionsFromSchema \<Rightarrow> LoaderCTX \<Rightarrow> EmitResult" where
  "transformOutput env cfg this =
     tsickle_emit env (program env cfg this) (tsickleHost (sourceUnit this))"

definition emitRun ::
  "('j, 'o, 'p) Env \<Rightarrow> 'o OptionsFromSchema \<Rightarrow> LoaderCTX \<Rightarrow> Event list \<times> JsFiles" where
  "emitRun env cfg this =
     runCallbacks env (diagnosticsHost env (sourceUnit this))
       (callbacks (transformOutput env cfg this)) []"

definition codeByPath ::
  "('j, 'o, 'p) Env \<Rightarrow> 'o OptionsFromSchema \<Rightarrow> LoaderCTX \<Rightarrow> JsFiles" where
  "codeByPath env cfg this = snd (emitRun env cfg this)"

definition externsByPath ::
  "('j, 'o, 'p) Env \<Rightarrow> 'o OptionsFromSchema \<Rightarrow> LoaderCTX \<Rightarrow> (string \<rightharpoonup> string)" where
  "externsByPath env cfg this = externs (transformOutput env cfg this)"

definition expectedPath :: "('j, 'o, 'p) Env \<Rightarrow> LoaderCTX \<Rightarrow> string" where
  "expectedPath env this = pathUtils_tsToJS env (sourceUnit this)"

text \<open>The events up to the diagnostic gate, and the message the gate reports: the formatter
  applied once to the whole diagnostic list.\<close>

definition gateTrace :: "LoaderCTX \<Rightarrow> Event list" where
  "gateTrace this = [CreateProgram [sourceUnit this], GetPreEmitDiagnostics]"

definition gateMessage :: "('j, 'o, 'p) Env \<Rightarrow> 'o OptionsFromSchema \<Rightarrow> LoaderCTX \<Rightarrow> string" where
  "gateMessage env cfg this =
     formatDiagnosticsWithColorAndContext env (diagnosticSet env cfg this)
       (diagnosticsHost env (sourceUnit this))"

text \<open>The two readings of "the entry matches the expected path". \<open>keyOccursIn\<close> is the test
  of the loop, \<open>sourceFileAsJs.indexOf(path) !== -1\<close>: the key occurs in the expected path.
  \<open>keyContains\<close> follows the words of the specification: the key contains the expected
  path.\<close>

definition keyOccursIn :: "string \<Rightarrow> string \<times> string \<Rightarrow> bool" where
  "keyOccursIn expected entry = sublist (fst entry) expected"

definition keyContains :: "string \<Rightarrow> string \<times> string \<Rightarrow> bool" where
  "keyContains expected entry = sublist expected (fst entry)"

text \<open>Projections of a trace: the messages given to \<open>emitError\<close>, and the (file, text) pairs
  given to \<open>appendFileSync\<close>.\<close>

fun emitErrors :: "Event list \<Rightarrow> string list" where
  "emitErrors [] = []"
| "emitErrors (EmitError m # es) = m # emitErrors es"
| "emitErrors (_ # es) = emitErrors es"

fun appends :: "Event list \<Rightarrow> (string \<times> string) list" where
  "appends [] = []"
| "appends (AppendFileSync f t # es) = (f, t) # appends es"
| "appends (_ # es) = appends es"

subsection \<open>The extension mapping of ./path-utils\<close>

text \<open>Modelled from the spec: the module \<open>./path-utils\<close>, from which index.ts imports
  \<open>tsToJS\<close> and \<open>jsToTS\<close>, is not among the sources. The specification describes the pair as a
  pure path-extension mapping that swaps the source extension for the emission extension and
  vice versa; the function names give the extensions, \<open>.ts\<close> and \<open>.js\<close>. A path without the
  extension is left as it is.\<close>

definition tsToJS :: "string \<Rightarrow> string" where
  "tsToJS p = (if suffix ''.ts'' p then take (length p - length ''.ts'') p @ ''.js'' else p)"

definition jsToTS :: "string \<Rightarrow> string" where
  "jsToTS p = (if suffix ''.js'' p then take (length p - length ''.js'') p @ ''.ts'' else p)"

subsection \<open>Concrete collaborators for evaluation\<close>

text \<open>A formatter that writes each message followed by the host's newline; an environment
  whose configuration file reads and parses without error, with given diagnostics, emit callbacks and externs, the
  extension mapping above and fixers that change nothing; a context for \<open>/p/a.ts\<close> with no
  options.\<close>

definition exFormat :: "Diagnostic list \<Rightarrow> FormatDiagnosticsHost \<Rightarrow> string" where
  "exFormat ds h = concat (map (\<lambda>d. messageText d @ getNewLine h) ds)"

definition exEnv ::
  "Diagnostic list \<Rightarrow> EmitCallback list \<Rightarrow> (string \<rightharpoonup> string) \<Rightarrow> (unit, unit, unit) Env" where
  "exEnv ds cbs exts =
    \<lparr>path_resolve = (\<lambda>d f. ''/cwd/'' @ d @ ''/'' @ f),
     path_dirname = (\<lambda>p. ''/p''),
     EOL = [CHR 0x0A],
     readConfigFile = (\<lambda>f. \<lparr>config = (), readError = None\<rparr>),
     parseJsonConfigFileContent = (\<lambda>j b f. \<lparr>options = (), errors = []\<rparr>),
     createProgram = (\<lambda>roots opts. ()),
     getPreEmitDiagnostics = (\<lambda>p. ds),
     formatDiagnosticsWithColorAndContext = exFormat,
     tsickle_emit = (\<lambda>p h. \<lparr>callbacks = cbs, externs = exts\<rparr>),
     pathUtils_tsToJS = tsToJS,
     pathUtils_jsToTS = jsToTS,
     fixOutput_fixCode = (\<lambda>s. s),
     fixOutput_fixExtern = (\<lambda>s. s)\<rparr>"

definition exCtx :: LoaderCTX where
  "exCtx = \<lparr>resourcePath = ''/p/a.ts'', loaderOptions = Map.empty\<rparr>"

definition exCfg :: "unit OptionsFromSchema" where
  "exCfg = \<lparr>tsconfig = ''tsconfig.json'', externDir = ''dist/externs'',
            externFile = ''/cwd/dist/externs/externs.js'',
            compilerConfig = \<lparr>options = (), errors = []\<rparr>\<rparr>"

definition exSource :: Source where
  "exSource = SourceString ''let x: number = 1;''"

definition exExterns :: "string \<rightharpoonup> string" where
  "exExterns = [''/p/a.ts'' \<mapsto> ''EXT'']"

definition exWarning :: Diagnostic where
  "exWarning = \<lparr>category = Warning, code = 6133, messageText = ''x is declared but never used''\<rparr>"

definition exError :: Diagnostic where
  "exError = \<lparr>category = Error, code = 2322, messageText = ''string is not assignable to number''\<rparr>"

text \<open>A clean program whose emit writes the source map before the code.\<close>

definition exEnvSourceMap :: "(unit, unit, unit) Env" where
  "exEnvSourceMap =
     exEnv [] [WriteFile ''/p/a.js.map'' ''MAP'', WriteFile ''/p/a.js'' ''CODE''] exExterns"

text \<open>A program with one diagnostic, of warning category.\<close>

definition exEnvWarning :: "(unit, unit, unit) Env" where
  "exEnvWarning = exEnv [exWarning] [] exExterns"

text \<open>A program with a warning and an error.\<close>

definition exEnvError :: "(unit, unit, unit) Env" where
  "exEnvError = exEnv [exWarning, exError] [] exExterns"

text \<open>A clean program whose emit writes under an output directory.\<close>

definition exEnvOutDir :: "(unit, unit, unit) Env" where
  "exEnvOutDir = exEnv [] [WriteFile ''/p/dist/a.js'' ''CODE''] exExterns"

text \<open>The source \<open>/p/p/a.ts\<close>, and a clean program whose emit writes \<open>/p/a.js\<close> only.\<close>

definition exCtxNested :: LoaderCTX where
  "exCtxNested = \<lparr>resourcePath = ''/p/p/a.ts'', loaderOptions = Map.empty\<rparr>"

definition exEnvNested :: "(unit, unit, unit) Env" where
  "exEnvNested = exEnv [] [WriteFile ''/p/a.js'' ''CODE''] exExterns"

text \<open>A malformed configuration file: the reader returns an error next to an empty
  configuration, the parser returns default options with the error in its \<open>errors\<close>; the
  program built with these options is clean and the emit is that of \<open>exEnvSourceMap\<close>.\<close>

definition exConfigError :: Diagnostic where
  "exConfigError = \<lparr>category = Error, code = 1005, messageText = ''} expected''\<rparr>"

definition exEnvBadConfig :: "(unit, unit, unit) Env" where
  "exEnvBadConfig =
     exEnvSourceMap
       \<lparr>readConfigFile := (\<lambda>f. \<lparr>config = (), readError = Some exConfigError\<rparr>),
        parseJsonConfigFileContent := (\<lambda>j b f. \<lparr>options = (), errors = [exConfigError]\<rparr>)\<rparr>"

definition exCfgBadConfig :: "unit OptionsFromSchema" where
  "exCfgBadConfig = exCfg\<lparr>compilerConfig := \<lparr>options = (), errors = [exConfigError]\<rparr>\<rparr>"

section \<open>Properties\<close>

subsection \<open>Auxiliary facts\<close>

lemmas model_defs = tsickleLoader_def loaderSetup_def validate_def isStringOrAbsent_def
  orDefault_def DEFAULT_EXTERN_DIR_def EXTERNS_FILE_NAME_def DEFAULT_CONFIG_FILE_def
  LOADER_NAME_def normalizePath_def handleDiagnostics_def diagnosticsHost_def tsickleHost_def
  indexOf_def sourceUnit_def program_def diagnosticSet_def transformOutput_def emitRun_def
  codeByPath_def externsByPath_def expectedPath_def keyOccursIn_def gateTrace_def
  gateMessage_def Let_def sublist_code(3) suffix_to_prefix

lemmas ex_defs = exEnv_def exCtx_def exCfg_def exFormat_def exSource_def exExterns_def
  tsToJS_def jsToTS_def

text \<open>\<open>indexOf\<close> answers \<open>-1\<close> exactly when the needle is not a contiguous part of the
  haystack.\<close>

lemma indexOfFrom_sublist: "0 \<le> i \<Longrightarrow> (indexOfFrom h n i = -1) = (\<not> sublist n h)"
proof (induction h arbitrary: i)
  case Nil
  then show ?case by auto
next
  case (Cons c cs)
  show ?case
  proof (cases "prefix n (c # cs)")
    case True
    then show ?thesis using Cons.prems by (auto simp: sublist_Cons_right)
  next
    case False
    then show ?thesis using Cons.IH[of "i + 1"] Cons.prems
      by (auto simp: sublist_Cons_right)
  qed
qed

lemma indexOf_sublist: "(indexOf h n = -1) = (\<not> sublist n h)"
  unfolding indexOf_def by (rule indexOfFrom_sublist) simp

lemma emitErrors_append: "emitErrors (xs @ ys) = emitErrors xs @ emitErrors ys"
  by (induction xs rule: emitErrors.induct) simp_all

lemma appends_append: "appends (xs @ ys) = appends xs @ appends ys"
  by (induction xs rule: appends.induct) simp_all

text \<open>The callbacks of the transform report warnings only: no error, no append.\<close>

lemma runCallbacks_quiet:
  "emitErrors (fst (runCallbacks env dh cbs jf)) = [] \<and> appends (fst (runCallbacks env dh cbs jf)) = []"
proof (induction cbs arbitrary: jf)
  case Nil
  show ?case by simp
next
  case (Cons cb cbs)
  show ?case
  proof (cases cb)
    case (WriteFile p c)
    then show ?thesis using Cons.IH by simp
  next
    case (LogWarning w)
    then show ?thesis using Cons.IH[of jf]
      by (simp add: handleDiagnostics_def split_beta emitErrors_append appends_append)
  qed
qed

lemma loaderSetup_quiet:
  assumes "loaderSetup env this = (tr0, r)"
  shows "emitErrors tr0 = []" and "appends tr0 = []"
  using assms
  by (auto simp: loaderSetup_def Let_def split: if_splits sum.splits)

lemma loaderSetup_first:
  assumes "validate (loaderOptions this)"
  shows "\<exists>rest. fst (loaderSetup env this) =
           EnsureDirSync (orDefault (loaderOptions this ''externDir'') DEFAULT_EXTERN_DIR) # rest"
  using assms
  by (auto simp: loaderSetup_def Let_def split: if_splits sum.splits)

text \<open>The loop is a search for the first entry whose key occurs in the expected path.\<close>

lemma selectLoop_find:
  "selectLoop env ef exts sjs jf =
     map_option (\<lambda>(p, src).
        ((case exts (pathUtils_jsToTS env p) of
            Some extern \<Rightarrow> [AppendFileSync ef (fixOutput_fixExtern env extern)]
          | None \<Rightarrow> []),
         fixOutput_fixCode env src))
       (find (keyOccursIn sjs) jf)"
  by (induction jf) (auto simp: keyOccursIn_def indexOf_sublist Let_def)

text \<open>The three ways through the loader: validation throws, the gate stops it, or the
  transform runs and the loop decides.\<close>

lemma tsickleLoader_Inl:
  assumes "loaderSetup env this = (tr0, Inl e)"
  shows "tsickleLoader env this source = (tr0, Threw e)"
  using assms by (simp add: tsickleLoader_def)

lemma tsickleLoader_abort:
  assumes "loaderSetup env this = (tr0, Inr cfg)" and "diagnosticSet env cfg this \<noteq> []"
  shows "tsickleLoader env this source =
           (tr0 @ gateTrace this @ [EmitError (gateMessage env cfg this)], Returned None)"
  using assms
  by (simp add: tsickleLoader_def Let_def diagnosticSet_def program_def sourceUnit_def
      gateTrace_def gateMessage_def handleDiagnostics_def)

lemma tsickleLoader_pass:
  assumes "loaderSetup env this = (tr0, Inr cfg)" and "diagnosticSet env cfg this = []"
  shows "tsickleLoader env this source =
           (case find (keyOccursIn (expectedPath env this)) (codeByPath env cfg this) of
              None \<Rightarrow>
                (tr0 @ gateTrace this @ [TsickleEmit] @ fst (emitRun env cfg this)
                   @ [EmitError (''missing compiled result for source file: '' @ sourceUnit this)],
                 Returned None)
            | Some (p, src) \<Rightarrow>
                (tr0 @ gateTrace this @ [TsickleEmit] @ fst (emitRun env cfg this)
                   @ (case externsByPath env cfg this (pathUtils_jsToTS env p) of
                        Some extern \<Rightarrow>
                          [AppendFileSync (externFile cfg) (fixOutput_fixExtern env extern)]
                      | None \<Rightarrow> []),
                 Returned (Some (fixOutput_fixCode env src))))"
  using assms
  by (simp add: tsickleLoader_def Let_def diagnosticSet_def program_def sourceUnit_def
      gateTrace_def selectLoop_find codeByPath_def emitRun_def
      transformOutput_def externsByPath_def expectedPath_def split_beta
      split: option.splits)

lemma exSetup: "loaderSetup (exEnv ds cbs exts) exCtx =
   ([EnsureDirSync ''dist/externs'', ReadConfigFile ''tsconfig.json''], Inr exCfg)"
  by (simp add: model_defs ex_defs)

subsection \<open>C1: which entry the Output Selector takes\<close>

text \<open>
  Claim C1, as amended. For every invocation that passes setup and the diagnostic gate, the
  loader computes the expected emitted-code path with \<open>tsToJS\<close> and takes the first entry of
  \<open>codeByPath\<close>, in iteration order, whose key occurs in the expected path as a contiguous
  part (the test is \<open>sourceFileAsJs.indexOf(path)\<close>, the key being the needle); the loader
  returns the text of that entry after \<open>fixCode\<close>, and no text when there is no such entry.
  The direction the claim states, a key that contains the expected path, is not the test of
  the code.
\<close>

theorem selector_takes_first_key_occurring_in_expected_path:
  assumes "loaderSetup env this = (tr0, Inr cfg)" and "diagnosticSet env cfg this = []"
  shows "snd (tsickleLoader env this source) =
           Returned (map_option (\<lambda>entry. fixOutput_fixCode env (snd entry))
                      (find (keyOccursIn (expectedPath env this)) (codeByPath env cfg this)))"
  using tsickleLoader_pass[OF assms, of source]
  by (simp split: option.splits prod.splits)

text \<open>At \<open>/p/a.ts\<close> with the emitted files \<open>/p/a.js.map\<close> and \<open>/p/a.js\<close>, the code is returned.\<close>

theorem selector_takes_first_key_occurring_in_expected_path_witness:
  "loaderSetup exEnvSourceMap exCtx =
     ([EnsureDirSync ''dist/externs'', ReadConfigFile ''tsconfig.json''], Inr exCfg)
   \<and> diagnosticSet exEnvSourceMap exCfg exCtx = []
   \<and> snd (tsickleLoader exEnvSourceMap exCtx exSource) = Returned (Some ''CODE'')"
proof -
  have s: "loaderSetup exEnvSourceMap exCtx =
     ([EnsureDirSync ''dist/externs'', ReadConfigFile ''tsconfig.json''], Inr exCfg)"
    unfolding exEnvSourceMap_def by (rule exSetup)
  have d: "diagnosticSet exEnvSourceMap exCfg exCtx = []"
    by (simp add: model_defs ex_defs exEnvSourceMap_def)
  have f: "find (keyOccursIn (expectedPath exEnvSourceMap exCtx))
             (codeByPath exEnvSourceMap exCfg exCtx) = Some (''/p/a.js'', ''CODE'')"
    by (simp add: model_defs ex_defs exEnvSourceMap_def)
  show ?thesis
    using s d selector_takes_first_key_occurring_in_expected_path[OF s d, of exSource] f
    by (simp add: exEnvSourceMap_def exEnv_def)
qed

text \<open>The claim as stated fails there: the first key that contains the expected path
  \<open>/p/a.js\<close> is \<open>/p/a.js.map\<close>, whose text is \<open>MAP\<close>, and the loader returns \<open>CODE\<close>.\<close>

theorem selector_key_containing_expected_path_counterexample:
  "codeByPath exEnvSourceMap exCfg exCtx = [(''/p/a.js.map'', ''MAP''), (''/p/a.js'', ''CODE'')]
   \<and> expectedPath exEnvSourceMap exCtx = ''/p/a.js''
   \<and> find (keyContains ''/p/a.js'') [(''/p/a.js.map'', ''MAP''), (''/p/a.js'', ''CODE'')]
        = Some (''/p/a.js.map'', ''MAP'')
   \<and> snd (tsickleLoader exEnvSourceMap exCtx exSource) = Returned (Some ''CODE'')
   \<and> snd (tsickleLoader exEnvSourceMap exCtx exSource)
        \<noteq> Returned (Some (fixOutput_fixCode exEnvSourceMap ''MAP''))"
  by (simp add: model_defs ex_defs exEnvSourceMap_def keyContains_def)

subsection \<open>C2: what stops the pipeline at the diagnostic gate\<close>

text \<open>
  Claim C2, as amended. For every constructed Program, the pipeline stops at the diagnostic
  gate (one report through \<open>emitError\<close>, the transform not run, no output) exactly when the
  pre-emission diagnostic set is non-empty, whatever the categories of its diagnostics; a set
  holding only warnings stops it too, and is reported through \<open>emitError\<close>, not forwarded as
  warnings.
\<close>

theorem gate_stops_iff_diagnostics_nonempty:
  assumes "loaderSetup env this = (tr0, Inr cfg)"
  shows "(tsickleLoader env this source =
            (tr0 @ gateTrace this @ [EmitError (gateMessage env cfg this)], Returned None))
         = (diagnosticSet env cfg this \<noteq> [])"
proof (cases "diagnosticSet env cfg this = []")
  case True
  then show ?thesis using tsickleLoader_pass[OF assms True, of source]
    by (auto split: option.splits)
next
  case False
  then show ?thesis using tsickleLoader_abort[OF assms False, of source] by simp
qed

theorem gate_stops_iff_diagnostics_nonempty_witness:
  "loaderSetup exEnvWarning exCtx =
     ([EnsureDirSync ''dist/externs'', ReadConfigFile ''tsconfig.json''], Inr exCfg)
   \<and> diagnosticSet exEnvWarning exCfg exCtx = [exWarning]
   \<and> tsickleLoader exEnvWarning exCtx exSource =
       ([EnsureDirSync ''dist/externs'', ReadConfigFile ''tsconfig.json'']
          @ gateTrace exCtx @ [EmitError (gateMessage exEnvWarning exCfg exCtx)], Returned None)"
proof -
  have s: "loaderSetup exEnvWarning exCtx =
     ([EnsureDirSync ''dist/externs'', ReadConfigFile ''tsconfig.json''], Inr exCfg)"
    unfolding exEnvWarning_def by (rule exSetup)
  have d: "diagnosticSet exEnvWarning exCfg exCtx = [exWarning]"
    by (simp add: model_defs ex_defs exEnvWarning_def)
  show ?thesis using s d gate_stops_iff_diagnostics_nonempty[OF s, of exSource] by simp
qed

text \<open>The claim as stated fails on a program whose only diagnostic is a warning: the loader
  reports it through \<open>emitError\<close> and returns nothing.\<close>

theorem gate_warning_only_counterexample:
  "diagnosticSet exEnvWarning exCfg exCtx = [exWarning]
   \<and> category exWarning = Warning
   \<and> tsickleLoader exEnvWarning exCtx exSource =
       ([EnsureDirSync ''dist/externs'', ReadConfigFile ''tsconfig.json'',
         CreateProgram [''/p/a.ts''], GetPreEmitDiagnostics,
         EmitError (''x is declared but never used'' @ [CHR 0x0A])],
        Returned None)"
  by (simp add: model_defs ex_defs exEnvWarning_def exWarning_def)

subsection \<open>C3: one report for a set with an error\<close>

text \<open>
  Claim C3. For every program whose diagnostic set holds at least one diagnostic of error
  category, the loader calls \<open>emitError\<close> exactly once, with the formatter's text for the
  whole set, returns no code text, and appends nothing.
\<close>

theorem error_diagnostics_reported_once:
  assumes "loaderSetup env this = (tr0, Inr cfg)"
    and "\<exists>d \<in> set (diagnosticSet env cfg this). category d = Error"
  shows "emitErrors (fst (tsickleLoader env this source)) = [gateMessage env cfg this]
         \<and> snd (tsickleLoader env this source) = Returned None
         \<and> appends (fst (tsickleLoader env this source)) = []"
proof -
  from assms(2) have ne: "diagnosticSet env cfg this \<noteq> []" by auto
  show ?thesis
    using tsickleLoader_abort[OF assms(1) ne, of source] loaderSetup_quiet[OF assms(1)]
    by (simp add: emitErrors_append appends_append gateTrace_def)
qed

theorem error_diagnostics_reported_once_witness:
  "loaderSetup exEnvError exCtx =
     ([EnsureDirSync ''dist/externs'', ReadConfigFile ''tsconfig.json''], Inr exCfg)
   \<and> exError \<in> set (diagnosticSet exEnvError exCfg exCtx) \<and> category exError = Error
   \<and> emitErrors (fst (tsickleLoader exEnvError exCtx exSource)) =
       [''x is declared but never used'' @ [CHR 0x0A]
          @ ''string is not assignable to number'' @ [CHR 0x0A]]
   \<and> snd (tsickleLoader exEnvError exCtx exSource) = Returned None
   \<and> appends (fst (tsickleLoader exEnvError exCtx exSource)) = []"
proof -
  have s: "loaderSetup exEnvError exCtx =
     ([EnsureDirSync ''dist/externs'', ReadConfigFile ''tsconfig.json''], Inr exCfg)"
    unfolding exEnvError_def by (rule exSetup)
  have m: "exError \<in> set (diagnosticSet exEnvError exCfg exCtx)"
    by (simp add: model_defs ex_defs exEnvError_def)
  have c: "category exError = Error" by (simp add: exError_def)
  have h: "\<exists>d \<in> set (diagnosticSet exEnvError exCfg exCtx). category d = Error"
    using m c by blast
  have g: "gateMessage exEnvError exCfg exCtx =
       ''x is declared but never used'' @ [CHR 0x0A]
          @ ''string is not assignable to number'' @ [CHR 0x0A]"
    by (simp add: model_defs ex_defs exEnvError_def exWarning_def exError_def)
  show ?thesis using s m c error_diagnostics_reported_once[OF s h, of exSource] g by simp
qed

subsection \<open>C4: no entry for the target file\<close>

text \<open>
  Claim C4, as amended. For every invocation that reaches the loop and in which no entry of
  \<open>codeByPath\<close> has a key that occurs in the expected path (the test of the loop, the one of
  C1), the loader calls \<open>emitError\<close>, once, with a message that ends in the normalized source
  file path, returns no code text, and appends nothing. With "matches" read as the
  specification defines it, a key that contains the expected path, the claim does not hold.
\<close>

theorem missing_output_reported:
  assumes "loaderSetup env this = (tr0, Inr cfg)" and "diagnosticSet env cfg this = []"
    and "\<forall>entry \<in> set (codeByPath env cfg this). \<not> keyOccursIn (expectedPath env this) entry"
  shows "emitErrors (fst (tsickleLoader env this source)) =
           [''missing compiled result for source file: '' @ sourceUnit this]
         \<and> snd (tsickleLoader env this source) = Returned None
         \<and> appends (fst (tsickleLoader env this source)) = []"
proof -
  have "find (keyOccursIn (expectedPath env this)) (codeByPath env cfg this) = None"
    using assms(3) by (auto simp: find_None_iff)
  then show ?thesis
    using tsickleLoader_pass[OF assms(1,2), of source] loaderSetup_quiet[OF assms(1)]
      runCallbacks_quiet[of env "diagnosticsHost env (sourceUnit this)"
        "callbacks (transformOutput env cfg this)" "[]"]
    by (simp add: emitErrors_append appends_append gateTrace_def emitRun_def)
qed

text \<open>At \<open>/p/a.ts\<close> with the one emitted file \<open>/p/dist/a.js\<close>, whose key does not occur in
  \<open>/p/a.js\<close>.\<close>

theorem missing_output_reported_witness:
  "loaderSetup exEnvOutDir exCtx =
     ([EnsureDirSync ''dist/externs'', ReadConfigFile ''tsconfig.json''], Inr exCfg)
   \<and> diagnosticSet exEnvOutDir exCfg exCtx = []
   \<and> codeByPath exEnvOutDir exCfg exCtx = [(''/p/dist/a.js'', ''CODE'')]
   \<and> \<not> keyOccursIn (expectedPath exEnvOutDir exCtx) (''/p/dist/a.js'', ''CODE'')
   \<and> emitErrors (fst (tsickleLoader exEnvOutDir exCtx exSource)) =
       [''missing compiled result for source file: /p/a.ts'']
   \<and> snd (tsickleLoader exEnvOutDir exCtx exSource) = Returned None"
proof -
  have s: "loaderSetup exEnvOutDir exCtx =
     ([EnsureDirSync ''dist/externs'', ReadConfigFile ''tsconfig.json''], Inr exCfg)"
    unfolding exEnvOutDir_def by (rule exSetup)
  have d: "diagnosticSet exEnvOutDir exCfg exCtx = []"
    by (simp add: model_defs ex_defs exEnvOutDir_def)
  have c: "codeByPath exEnvOutDir exCfg exCtx = [(''/p/dist/a.js'', ''CODE'')]"
    by (simp add: model_defs ex_defs exEnvOutDir_def)
  have i: "\<not> keyOccursIn (expectedPath exEnvOutDir exCtx) (''/p/dist/a.js'', ''CODE'')"
    by (simp add: model_defs ex_defs exEnvOutDir_def)
  have h: "\<forall>entry \<in> set (codeByPath exEnvOutDir exCfg exCtx).
             \<not> keyOccursIn (expectedPath exEnvOutDir exCtx) entry"
    using c i by simp
  have u: "sourceUnit exCtx = ''/p/a.ts''" by (simp add: model_defs ex_defs)
  show ?thesis using s d c i missing_output_reported[OF s d h, of exSource] u by simp
qed

text \<open>The claim as stated fails at \<open>/p/p/a.ts\<close> with the one emitted file \<open>/p/a.js\<close>: no key
  contains the expected path \<open>/p/p/a.js\<close>, so no entry matches in the specification's sense,
  and yet the loader returns the text of \<open>/p/a.js\<close> and calls \<open>emitError\<close> not at all.\<close>

theorem missing_output_key_containing_counterexample:
  "loaderSetup exEnvNested exCtxNested =
     ([EnsureDirSync ''dist/externs'', ReadConfigFile ''tsconfig.json''], Inr exCfg)
   \<and> diagnosticSet exEnvNested exCfg exCtxNested = []
   \<and> codeByPath exEnvNested exCfg exCtxNested = [(''/p/a.js'', ''CODE'')]
   \<and> expectedPath exEnvNested exCtxNested = ''/p/p/a.js''
   \<and> \<not> keyContains ''/p/p/a.js'' (''/p/a.js'', ''CODE'')
   \<and> emitErrors (fst (tsickleLoader exEnvNested exCtxNested exSource)) = []
   \<and> snd (tsickleLoader exEnvNested exCtxNested exSource) = Returned (Some ''CODE'')"
  by (simp add: model_defs ex_defs exEnvNested_def exCtxNested_def keyContains_def)

subsection \<open>C5: when the externs file is appended to\<close>

text \<open>
  Claim C5, as amended. The appends of an invocation are determined as follows. When
  validation throws (schema error) or the diagnostic gate stops the pipeline, there is none.
  Otherwise there is at most one, made only if the loop finds an entry and the transform
  returned an extern for the source-space path of that entry; it goes to \<open>externFile\<close>, and
  the text appended is the extern after \<open>fixExtern\<close>. An error of the configuration reader or
  parser is not among the failures that exclude an append: the loader does not look at it
  and carries on.
\<close>

theorem externFile_appends_characterised:
  "appends (fst (tsickleLoader env this source)) =
     (case loaderSetup env this of
        (tr0, Inl e) \<Rightarrow> []
      | (tr0, Inr cfg) \<Rightarrow>
          if diagnosticSet env cfg this \<noteq> [] then []
          else (case find (keyOccursIn (expectedPath env this)) (codeByPath env cfg this) of
                  None \<Rightarrow> []
                | Some (p, src) \<Rightarrow>
                    (case externsByPath env cfg this (pathUtils_jsToTS env p) of
                       None \<Rightarrow> []
                     | Some extern \<Rightarrow> [(externFile cfg, fixOutput_fixExtern env extern)])))"
proof -
  obtain tr0 r where s: "loaderSetup env this = (tr0, r)" by (cases "loaderSetup env this")
  note q = loaderSetup_quiet[OF s]
  show ?thesis
  proof (cases r)
    case (Inl e)
    then show ?thesis using s q tsickleLoader_Inl[of env this tr0 e source] by simp
  next
    case (Inr cfg)
    with s have s': "loaderSetup env this = (tr0, Inr cfg)" by simp
    show ?thesis
    proof (cases "diagnosticSet env cfg this = []")
      case False
      then show ?thesis using s' q tsickleLoader_abort[OF s' False, of source]
        by (simp add: appends_append gateTrace_def)
    next
      case True
      have w: "appends (fst (emitRun env cfg this)) = []"
        unfolding emitRun_def by (simp add: runCallbacks_quiet)
      show ?thesis using s' q True w tsickleLoader_pass[OF s' True, of source]
        by (simp add: appends_append gateTrace_def split: option.splits prod.splits)
    qed
  qed
qed

text \<open>One append when the transform returned an extern for \<open>/p/a.ts\<close>; none when the gate
  stopped the pipeline.\<close>

theorem externFile_appends_characterised_witness:
  "appends (fst (tsickleLoader exEnvSourceMap exCtx exSource)) =
     [(''/cwd/dist/externs/externs.js'', ''EXT'')]
   \<and> appends (fst (tsickleLoader exEnvError exCtx exSource)) = []"
proof -
  have a: "loaderSetup exEnvSourceMap exCtx =
     ([EnsureDirSync ''dist/externs'', ReadConfigFile ''tsconfig.json''], Inr exCfg)"
    unfolding exEnvSourceMap_def by (rule exSetup)
  have b: "loaderSetup exEnvError exCtx =
     ([EnsureDirSync ''dist/externs'', ReadConfigFile ''tsconfig.json''], Inr exCfg)"
    unfolding exEnvError_def by (rule exSetup)
  have c: "diagnosticSet exEnvSourceMap exCfg exCtx = []"
    by (simp add: model_defs ex_defs exEnvSourceMap_def)
  have d: "diagnosticSet exEnvError exCfg exCtx \<noteq> []"
    by (simp add: model_defs ex_defs exEnvError_def)
  have f: "find (keyOccursIn (expectedPath exEnvSourceMap exCtx))
             (codeByPath exEnvSourceMap exCfg exCtx) = Some (''/p/a.js'', ''CODE'')"
    by (simp add: model_defs ex_defs exEnvSourceMap_def)
  have g: "externsByPath exEnvSourceMap exCfg exCtx (pathUtils_jsToTS exEnvSourceMap ''/p/a.js'')
            = Some ''EXT''"
    by (simp add: model_defs ex_defs exEnvSourceMap_def)
  have h: "externFile exCfg = ''/cwd/dist/externs/externs.js''" by (simp add: exCfg_def)
  have i: "fixOutput_fixExtern exEnvSourceMap ''EXT'' = ''EXT''"
    by (simp add: ex_defs exEnvSourceMap_def)
  show ?thesis
    using externFile_appends_characterised[of exEnvSourceMap exCtx exSource]
      externFile_appends_characterised[of exEnvError exCtx exSource]
    by (simp add: a b c d f g h i)
qed

text \<open>The claim as stated fails on a malformed configuration file: the reader and the parser
  both report the error, the loader goes on with the options it was given, and the extern of
  \<open>/p/a.ts\<close> is appended.\<close>

theorem config_error_append_counterexample:
  "readError (readConfigFile exEnvBadConfig ''tsconfig.json'') = Some exConfigError
   \<and> category exConfigError = Error
   \<and> loaderSetup exEnvBadConfig exCtx =
       ([EnsureDirSync ''dist/externs'', ReadConfigFile ''tsconfig.json''], Inr exCfgBadConfig)
   \<and> errors (compilerConfig exCfgBadConfig) = [exConfigError]
   \<and> appends (fst (tsickleLoader exEnvBadConfig exCtx exSource)) =
       [(''/cwd/dist/externs/externs.js'', ''EXT'')]
   \<and> snd (tsickleLoader exEnvBadConfig exCtx exSource) = Returned (Some ''CODE'')"
  by (simp add: model_defs ex_defs exEnvBadConfig_def exCfgBadConfig_def exEnvSourceMap_def
      exConfigError_def)

subsection \<open>C6: the extension mapping\<close>

text \<open>
  Claim C6. For every path \<open>P\<close> that ends in the source extension \<open>.ts\<close>, translating \<open>P\<close> with
  \<open>tsToJS\<close> and back with \<open>jsToTS\<close> yields \<open>P\<close>.
\<close>

theorem extension_mapping_round_trip:
  assumes "suffix ''.ts'' P"
  shows "jsToTS (tsToJS P) = P"
proof -
  from assms obtain stem where P: "P = stem @ ''.ts''" by (auto simp: suffix_def)
  have "tsToJS P = stem @ ''.js''" using assms P by (simp add: tsToJS_def)
  moreover have "suffix ''.js'' (stem @ ''.js'')" by (rule suffixI) simp
  ultimately show ?thesis using P by (simp add: jsToTS_def)
qed

theorem extension_mapping_round_trip_witness:
  "suffix ''.ts'' ''/p/a.ts'' \<and> tsToJS ''/p/a.ts'' = ''/p/a.js''
   \<and> jsToTS (tsToJS ''/p/a.ts'') = ''/p/a.ts''"
proof -
  have h: "suffix ''.ts'' ''/p/a.ts''" by (simp add: suffix_to_prefix)
  have t: "tsToJS ''/p/a.ts'' = ''/p/a.js''" by (simp add: tsToJS_def suffix_to_prefix)
  show ?thesis using h t extension_mapping_round_trip[OF h] by simp
qed

subsection \<open>C8: the skip policy\<close>

text \<open>
  Claim C8. The host that the loader hands to the transform skips a file path \<open>F\<close> if and
  only if \<open>F\<close> is not equal, as a string, to the normalized source path.
\<close>

theorem skip_policy_is_path_inequality:
  "shouldSkipTsickleProcessing (tsickleHost (sourceUnit this)) F = (F \<noteq> sourceUnit this)"
  by (auto simp: tsickleHost_def)

subsection \<open>C9: the source argument\<close>

text \<open>
  Claim C9. Two invocations with the same context (resource path and options) and the same
  collaborators (filesystem and compiler state) have the same trace and the same outcome,
  whatever their source arguments: the argument is never read.
\<close>

theorem source_argument_is_not_read:
  "tsickleLoader env this source1 = tsickleLoader env this source2"
  by (simp add: tsickleLoader_def)

subsection \<open>C10: the extern directory\<close>

text \<open>
  Claim C10. On every invocation whose options pass schema validation, the first event of
  the trace is the creation of the extern directory (the option \<open>externDir\<close>, or the default),
  and it lies in the part of the trace before the diagnostics are computed; this holds
  whether the invocation later stops at the gate, misses its output or returns code.
\<close>

theorem extern_dir_created_first:
  assumes "validate (loaderOptions this)"
  shows "fst (tsickleLoader env this source) =
           EnsureDirSync (orDefault (loaderOptions this ''externDir'') DEFAULT_EXTERN_DIR)
             # tl (fst (tsickleLoader env this source))
         \<and> EnsureDirSync (orDefault (loaderOptions this ''externDir'') DEFAULT_EXTERN_DIR)
             \<in> set (takeWhile (\<lambda>e. e \<noteq> GetPreEmitDiagnostics) (fst (tsickleLoader env this source)))"
proof -
  obtain rest where r: "fst (loaderSetup env this) =
      EnsureDirSync (orDefault (loaderOptions this ''externDir'') DEFAULT_EXTERN_DIR) # rest"
    using loaderSetup_first[OF assms] by blast
  obtain tr0 res where s: "loaderSetup env this = (tr0, res)" by (cases "loaderSetup env this")
  have "\<exists>more. fst (tsickleLoader env this source) = tr0 @ more"
    using s by (auto simp: tsickleLoader_def Let_def split: sum.splits prod.splits option.splits)
  then obtain more where m: "fst (tsickleLoader env this source) = tr0 @ more" by blast
  show ?thesis using r s m by simp
qed

text \<open>An invocation that stops at the gate: the directory was created, nothing was appended.\<close>

theorem extern_dir_created_first_witness:
  "validate (loaderOptions exCtx)
   \<and> fst (tsickleLoader exEnvError exCtx exSource) =
       [EnsureDirSync ''dist/externs'', ReadConfigFile ''tsconfig.json'',
        CreateProgram [''/p/a.ts''], GetPreEmitDiagnostics,
        EmitError (''x is declared but never used'' @ [CHR 0x0A]
                     @ ''string is not assignable to number'' @ [CHR 0x0A])]
   \<and> snd (tsickleLoader exEnvError exCtx exSource) = Returned None"
proof -
  have v: "validate (loaderOptions exCtx)" by (simp add: model_defs ex_defs)
  have t: "tl (fst (tsickleLoader exEnvError exCtx exSource)) =
       [ReadConfigFile ''tsconfig.json'',
        CreateProgram [''/p/a.ts''], GetPreEmitDiagnostics,
        EmitError (''x is declared but never used'' @ [CHR 0x0A]
                     @ ''string is not assignable to number'' @ [CHR 0x0A])]"
    by (simp add: model_defs ex_defs exEnvError_def exWarning_def exError_def)
  have d: "orDefault (loaderOptions exCtx ''externDir'') DEFAULT_EXTERN_DIR = ''dist/externs''"
    by (simp add: model_defs ex_defs)
  have o: "snd (tsickleLoader exEnvError exCtx exSource) = Returned None"
    by (simp add: model_defs ex_defs exEnvError_def exWarning_def exError_def)
  show ?thesis using v o extern_dir_created_first[OF v, of exEnvError exSource] by (simp add: t d)
qed

end
